theory Spec2Isabelle
  imports Main "HOL-Library.Monad_Syntax"
begin

section \<open>Text, characters and the pattern primitives\<close>

text \<open>
  The program is \<^verbatim>\<open>debug_helper.py\<close>: \<^verbatim>\<open>StackTraceParser\<close> and
  \<^verbatim>\<open>LogAnalyzer\<close>. Text is a \<^typ>\<open>string\<close>; its characters are read as ASCII
  code points, and the classes \<^verbatim>\<open>\d\<close>, \<^verbatim>\<open>\w\<close>, \<^verbatim>\<open>\s\<close> are the ones Python's
  \<^verbatim>\<open>re\<close> has on ASCII text (\<^verbatim>\<open>\s\<close> includes the separators 0x1c to 0x1f).
  Every pattern of the source is a matcher of its own, anchored where \<^verbatim>\<open>re.match\<close>
  anchors, and returns the captured groups. \<^verbatim>\<open>int(...)\<close> is only ever applied to a
  capture of \<^verbatim>\<open>\d+\<close> and is modelled as the total conversion of a digit string
  (a limit of the interpreter on the length of such a string is not modelled).
\<close>

definition newline :: char where
  "newline = CHR 0x0A"

definition dquote :: char where
  "dquote = CHR 0x22"

definition is_digit :: "char \<Rightarrow> bool" where
  "is_digit c = (let n = (of_char c :: nat) in 48 \<le> n \<and> n \<le> 57)"

definition is_alpha :: "char \<Rightarrow> bool" where
  "is_alpha c = (let n = (of_char c :: nat) in (65 \<le> n \<and> n \<le> 90) \<or> (97 \<le> n \<and> n \<le> 122))"

definition is_word :: "char \<Rightarrow> bool" where
  "is_word c = (is_alpha c \<or> is_digit c \<or> c = CHR ''_'')"

definition is_space :: "char \<Rightarrow> bool" where
  "is_space c = (let n = (of_char c :: nat) in (9 \<le> n \<and> n \<le> 13) \<or> (28 \<le> n \<and> n \<le> 32))"

text \<open>The dot of a pattern: any character but the newline.\<close>

definition is_dot :: "char \<Rightarrow> bool" where
  "is_dot c = (c \<noteq> newline)"

definition is_word_dot :: "char \<Rightarrow> bool" where
  "is_word_dot c = (is_word c \<or> c = CHR ''.'')"

definition is_word_dot_dollar :: "char \<Rightarrow> bool" where
  "is_word_dot_dollar c = (is_word c \<or> c = CHR ''.'' \<or> c = CHR ''$'')"

definition not_colon :: "char \<Rightarrow> bool" where
  "not_colon c = (c \<noteq> CHR '':'')"

definition not_dquote :: "char \<Rightarrow> bool" where
  "not_dquote c = (c \<noteq> dquote)"

text \<open>A literal piece of a pattern: the rest of the text after it.\<close>

fun lit :: "string \<Rightarrow> string \<Rightarrow> string option" where
  "lit [] s = Some s"
| "lit (p # ps) [] = None"
| "lit (p # ps) (c # cs) = (if p = c then lit ps cs else None)"

text \<open>
  A greedy run \<^verbatim>\<open>[class]+\<close> whose continuation in the pattern starts with a character
  outside the class: the run can only be the longest one, so no shorter run is ever tried
  with success. Returns the run and the rest.
\<close>

definition many1 :: "(char \<Rightarrow> bool) \<Rightarrow> string \<Rightarrow> (string \<times> string) option" where
  "many1 P s = (if takeWhile P s = [] then None else Some (takeWhile P s, dropWhile P s))"

text \<open>\<^verbatim>\<open>int(s)\<close> on a run of decimal digits.\<close>

definition digit_val :: "char \<Rightarrow> int" where
  "digit_val c = int (of_char c) - 48"

definition int_of_digits :: "string \<Rightarrow> int" where
  "int_of_digits s = foldl (\<lambda>a c. 10 * a + digit_val c) 0 s"

text \<open>\<^verbatim>\<open>text.split('\n')\<close>: never empty, the empty text gives one empty line.\<close>

fun split_nl :: "string \<Rightarrow> string list" where
  "split_nl [] = [[]]"
| "split_nl (c # cs) =
     (if c = newline then [] # split_nl cs
      else (case split_nl cs of l # ls \<Rightarrow> (c # l) # ls | [] \<Rightarrow> [[c]]))"

text \<open>\<^verbatim>\<open>s.strip()\<close>: whitespace removed at both ends.\<close>

definition rstrip_with :: "(char \<Rightarrow> bool) \<Rightarrow> string \<Rightarrow> string" where
  "rstrip_with P s = rev (dropWhile P (rev s))"

definition strip_with :: "(char \<Rightarrow> bool) \<Rightarrow> string \<Rightarrow> string" where
  "strip_with P s = rstrip_with P (dropWhile P s)"

definition strip :: "string \<Rightarrow> string" where
  "strip s = strip_with is_space s"

text \<open>
  The head \<^verbatim>\<open>(C+(?:S1|S2|...)): (.+)\<close> shared by the error lines: the group is a run
  of the class \<open>C\<close> that is followed by a colon, hence the longest run; it has to end in
  one of the suffixes, with at least one character of the class before the suffix.
\<close>

definition has_suffix1 :: "string \<Rightarrow> string \<Rightarrow> bool" where
  "has_suffix1 suf run = (length suf < length run \<and> drop (length run - length suf) run = suf)"

definition error_head :: "(char \<Rightarrow> bool) \<Rightarrow> string list \<Rightarrow> string \<Rightarrow> (string \<times> string) option" where
  "error_head cls sufs s = do {
     (ty, r) \<leftarrow> many1 cls s;
     if list_ex (\<lambda>suf. has_suffix1 suf ty) sufs then do {
       r1 \<leftarrow> lit '': '' r;
       (msg, r2) \<leftarrow> many1 is_dot r1;
       Some (ty, msg)
     } else None
   }"

section \<open>The data model\<close>

text \<open>
  The dictionaries the scanners build. A key that a scanner does not write is \<open>None\<close>;
  the \<^verbatim>\<open>None\<close> that the Python scanner stores under \<^verbatim>\<open>error_type\<close> before the
  trailer is read is \<open>None\<close> as well.
\<close>

datatype language = Python | Javascript | Java | Go

record frame =
  f_file :: string
  f_line :: int
  f_function :: "string option"
  f_method :: "string option"
  f_column :: "int option"
  f_code :: "string option"

record cause =
  c_type :: string
  c_message :: string

record trace =
  t_language :: language
  t_error_type :: "string option"
  t_error_message :: "string option"
  t_stack :: "frame list"
  t_caused_by :: "cause list option"

section \<open>The Python scanner\<close>

text \<open>\<^verbatim>\<open>^Traceback \(most recent call last\):\<close>\<close>

definition py_traceback_start :: "string \<Rightarrow> bool" where
  "py_traceback_start s = (lit ''Traceback (most recent call last):'' s \<noteq> None)"

text \<open>\<^verbatim>\<open>^\s+File "([^"]+)", line (\d+), in (.+)\<close>\<close>

definition py_file_line :: "string \<Rightarrow> (string \<times> string \<times> string) option" where
  "py_file_line s = do {
     (ws, r0) \<leftarrow> many1 is_space s;
     r1 \<leftarrow> lit (''File '' @ [dquote]) r0;
     (filename, r2) \<leftarrow> many1 not_dquote r1;
     r3 \<leftarrow> lit (dquote # '', line '') r2;
     (line_num, r4) \<leftarrow> many1 is_digit r3;
     r5 \<leftarrow> lit '', in '' r4;
     (fn, r6) \<leftarrow> many1 is_dot r5;
     Some (filename, line_num, fn)
   }"

text \<open>\<^verbatim>\<open>^(\w+(?:Error|Exception|Warning)): (.+)\<close>\<close>

definition py_error_line :: "string \<Rightarrow> (string \<times> string) option" where
  "py_error_line s = error_head is_word [''Error'', ''Exception'', ''Warning''] s"

definition py_new_trace :: trace where
  "py_new_trace = \<lparr>t_language = Python, t_error_type = None, t_error_message = None,
     t_stack = [], t_caused_by = None\<rparr>"

definition py_frame :: "string list \<Rightarrow> nat \<Rightarrow> string \<times> string \<times> string \<Rightarrow> frame" where
  "py_frame lines i g = (case g of (filename, line_num, fn) \<Rightarrow>
     \<lparr>f_file = filename, f_line = int_of_digits line_num, f_function = Some fn,
      f_method = None, f_column = None,
      f_code = Some (if i + 1 < length lines then strip (lines ! (i + 1)) else [])\<rparr>)"

text \<open>
  The inner loop of \<^verbatim>\<open>_parse_python\<close>, entered with the cursor after the start line.
  It returns the cursor at which it stopped and the list of traces, which has grown by
  the trace when the line it stopped at is an error line.
\<close>

function python_frames :: "string list \<Rightarrow> nat \<Rightarrow> trace \<Rightarrow> trace list \<Rightarrow> nat \<times> trace list" where
  "python_frames lines i tr traces =
     (if i < length lines then
        (case py_file_line (lines ! i) of
           Some g \<Rightarrow>
             python_frames lines (i + 2)
               (tr\<lparr>t_stack := t_stack tr @ [py_frame lines i g]\<rparr>) traces
         | None \<Rightarrow>
             (case py_error_line (lines ! i) of
                Some (ty, msg) \<Rightarrow>
                  (i, traces @ [tr\<lparr>t_error_type := Some ty, t_error_message := Some msg\<rparr>])
              | None \<Rightarrow> (i, traces)))
      else (i, traces))"
  by pat_completeness auto
termination
  by (relation "measure (\<lambda>(lines, i, tr, traces). length lines - i)") auto

declare python_frames.simps [simp del]

lemma python_frames_cursor: "python_frames lines i tr traces = (j, out) \<Longrightarrow> i \<le> j"
proof (induction lines i tr traces rule: python_frames.induct)
  case (1 lines i tr traces)
  from "1.prems" "1.IH" show ?case
    by (subst (asm) python_frames.simps) (fastforce split: if_splits option.splits)
qed

text \<open>The outer loop of \<^verbatim>\<open>_parse_python\<close>.\<close>

function python_scan :: "string list \<Rightarrow> nat \<Rightarrow> trace list \<Rightarrow> trace list" where
  "python_scan lines i traces =
     (if i < length lines then
        (if py_traceback_start (lines ! i) then
           (case python_frames lines (i + 1) py_new_trace traces of
              (j, traces') \<Rightarrow> python_scan lines (j + 1) traces')
         else python_scan lines (i + 1) traces)
      else traces)"
  by pat_completeness auto
termination
  by (relation "measure (\<lambda>(lines, i, traces). length lines - i)")
    (auto dest!: python_frames_cursor [OF sym])

declare python_scan.simps [simp del]

definition parse_python :: "string \<Rightarrow> trace list" where
  "parse_python text = python_scan (split_nl text) 0 []"

section \<open>The JavaScript scanner\<close>

text \<open>\<^verbatim>\<open>^(\w+Error): (.+)\<close>\<close>

definition js_error_line :: "string \<Rightarrow> (string \<times> string) option" where
  "js_error_line s = error_head is_word [''Error''] s"

text \<open>The end \<^verbatim>\<open>([^:]+):(\d+):(\d+)\)\<close> of the first frame pattern.\<close>

definition js_at_tail :: "string \<Rightarrow> (string \<times> string \<times> string) option" where
  "js_at_tail s = do {
     (filename, r1) \<leftarrow> many1 not_colon s;
     r2 \<leftarrow> lit '':'' r1;
     (line_num, r3) \<leftarrow> many1 is_digit r2;
     r4 \<leftarrow> lit '':'' r3;
     (col, r5) \<leftarrow> many1 is_digit r4;
     r6 \<leftarrow> lit '')'' r5;
     Some (filename, line_num, col)
   }"

text \<open>
  The group \<^verbatim>\<open>(.+)\<close> of the first frame pattern is followed by \<^verbatim>\<open> \(\<close> and the
  end of the pattern. It is greedy: of all the places where the rest of the pattern
  matches, the last one is taken. \<open>pre\<close> is what the group holds so far.
\<close>

fun js_at_split :: "string \<Rightarrow> string \<Rightarrow> (string \<times> string \<times> string \<times> string) option" where
  "js_at_split pre [] = None"
| "js_at_split pre (c # cs) =
     (case (if is_dot c then js_at_split (pre @ [c]) cs else None) of
        Some g \<Rightarrow> Some g
      | None \<Rightarrow>
          (if pre \<noteq> [] then do {
             r \<leftarrow> lit '' ('' (c # cs);
             (filename, line_num, col) \<leftarrow> js_at_tail r;
             Some (pre, filename, line_num, col)
           } else None))"

text \<open>\<^verbatim>\<open>^\s+at (.+) \(([^:]+):(\d+):(\d+)\)\<close>\<close>

definition js_at_line :: "string \<Rightarrow> (string \<times> string \<times> string \<times> string) option" where
  "js_at_line s = do {
     (ws, r0) \<leftarrow> many1 is_space s;
     r1 \<leftarrow> lit ''at '' r0;
     js_at_split [] r1
   }"

text \<open>\<^verbatim>\<open>^\s+at ([^:]+):(\d+):(\d+)\<close>\<close>

definition js_at_line_simple :: "string \<Rightarrow> (string \<times> string \<times> string) option" where
  "js_at_line_simple s = do {
     (ws, r0) \<leftarrow> many1 is_space s;
     r1 \<leftarrow> lit ''at '' r0;
     (filename, r2) \<leftarrow> many1 not_colon r1;
     r3 \<leftarrow> lit '':'' r2;
     (line_num, r4) \<leftarrow> many1 is_digit r3;
     r5 \<leftarrow> lit '':'' r4;
     (col, r6) \<leftarrow> many1 is_digit r5;
     Some (filename, line_num, col)
   }"

definition js_new_trace :: "string \<Rightarrow> string \<Rightarrow> trace" where
  "js_new_trace ty msg = \<lparr>t_language = Javascript, t_error_type = Some ty,
     t_error_message = Some msg, t_stack = [], t_caused_by = None\<rparr>"

definition js_frame :: "string \<times> string \<times> string \<times> string \<Rightarrow> frame" where
  "js_frame g = (case g of (fn, filename, line_num, col) \<Rightarrow>
     \<lparr>f_file = filename, f_line = int_of_digits line_num, f_function = Some fn,
      f_method = None, f_column = Some (int_of_digits col), f_code = None\<rparr>)"

definition js_frame_simple :: "string \<times> string \<times> string \<Rightarrow> frame" where
  "js_frame_simple g = (case g of (filename, line_num, col) \<Rightarrow>
     \<lparr>f_file = filename, f_line = int_of_digits line_num, f_function = None,
      f_method = None, f_column = Some (int_of_digits col), f_code = None\<rparr>)"

text \<open>The inner loop of \<^verbatim>\<open>_parse_javascript\<close>: the cursor where it stopped, and the trace.\<close>

function js_frames :: "string list \<Rightarrow> nat \<Rightarrow> trace \<Rightarrow> nat \<times> trace" where
  "js_frames lines i tr =
     (if i < length lines then
        (case js_at_line (lines ! i) of
           Some g \<Rightarrow> js_frames lines (i + 1) (tr\<lparr>t_stack := t_stack tr @ [js_frame g]\<rparr>)
         | None \<Rightarrow>
             (case js_at_line_simple (lines ! i) of
                Some g \<Rightarrow>
                  js_frames lines (i + 1) (tr\<lparr>t_stack := t_stack tr @ [js_frame_simple g]\<rparr>)
              | None \<Rightarrow> (i, tr)))
      else (i, tr))"
  by pat_completeness auto
termination
  by (relation "measure (\<lambda>(lines, i, tr). length lines - i)") auto

declare js_frames.simps [simp del]

lemma js_frames_cursor: "js_frames lines i tr = (j, out) \<Longrightarrow> i \<le> j"
proof (induction lines i tr arbitrary: j out rule: js_frames.induct)
  case (1 lines i tr)
  from "1.prems" show ?case
    by (subst (asm) js_frames.simps)
       (auto split: if_splits option.splits dest: "1.IH"(1) "1.IH"(2))
qed

function js_scan :: "string list \<Rightarrow> nat \<Rightarrow> trace list \<Rightarrow> trace list" where
  "js_scan lines i traces =
     (if i < length lines then
        (case js_error_line (lines ! i) of
           Some (ty, msg) \<Rightarrow>
             (case js_frames lines (i + 1) (js_new_trace ty msg) of
                (j, tr) \<Rightarrow>
                  js_scan lines (j + 1) (if t_stack tr \<noteq> [] then traces @ [tr] else traces))
         | None \<Rightarrow> js_scan lines (i + 1) traces)
      else traces)"
  by pat_completeness auto
termination
  by (relation "measure (\<lambda>(lines, i, traces). length lines - i)")
    (auto dest!: js_frames_cursor [OF sym])

declare js_scan.simps [simp del]

definition parse_javascript :: "string \<Rightarrow> trace list" where
  "parse_javascript text = js_scan (split_nl text) 0 []"

section \<open>The Java scanner\<close>

text \<open>\<^verbatim>\<open>^([\w\.]+(?:Exception|Error)): (.+)\<close>\<close>

definition java_exception_line :: "string \<Rightarrow> (string \<times> string) option" where
  "java_exception_line s = error_head is_word_dot [''Exception'', ''Error''] s"

text \<open>\<^verbatim>\<open>^\s+at ([\w\.$]+)\(([^:]+):(\d+)\)\<close>\<close>

definition java_at_line :: "string \<Rightarrow> (string \<times> string \<times> string) option" where
  "java_at_line s = do {
     (ws, r0) \<leftarrow> many1 is_space s;
     r1 \<leftarrow> lit ''at '' r0;
     (method, r2) \<leftarrow> many1 is_word_dot_dollar r1;
     r3 \<leftarrow> lit ''('' r2;
     (filename, r4) \<leftarrow> many1 not_colon r3;
     r5 \<leftarrow> lit '':'' r4;
     (line_num, r6) \<leftarrow> many1 is_digit r5;
     r7 \<leftarrow> lit '')'' r6;
     Some (method, filename, line_num)
   }"

text \<open>\<^verbatim>\<open>^Caused by: ([\w\.]+(?:Exception|Error)): (.+)\<close>\<close>

definition java_caused_by :: "string \<Rightarrow> (string \<times> string) option" where
  "java_caused_by s = do {
     r \<leftarrow> lit ''Caused by: '' s;
     error_head is_word_dot [''Exception'', ''Error''] r
   }"

definition java_new_trace :: "string \<Rightarrow> string \<Rightarrow> trace" where
  "java_new_trace ty msg = \<lparr>t_language = Java, t_error_type = Some ty,
     t_error_message = Some msg, t_stack = [], t_caused_by = Some []\<rparr>"

definition java_frame :: "string \<times> string \<times> string \<Rightarrow> frame" where
  "java_frame g = (case g of (method, filename, line_num) \<Rightarrow>
     \<lparr>f_file = filename, f_line = int_of_digits line_num, f_function = None,
      f_method = Some method, f_column = None, f_code = None\<rparr>)"

definition java_add_cause :: "string \<times> string \<Rightarrow> trace \<Rightarrow> trace" where
  "java_add_cause g tr = (case g of (ty, msg) \<Rightarrow>
     tr\<lparr>t_caused_by :=
       Some ((case t_caused_by tr of Some cs \<Rightarrow> cs | None \<Rightarrow> [])
             @ [\<lparr>c_type = ty, c_message = msg\<rparr>])\<rparr>)"

text \<open>The inner loop of \<^verbatim>\<open>_parse_java\<close>.\<close>

function java_frames :: "string list \<Rightarrow> nat \<Rightarrow> trace \<Rightarrow> nat \<times> trace" where
  "java_frames lines i tr =
     (if i < length lines then
        (case java_at_line (lines ! i) of
           Some g \<Rightarrow> java_frames lines (i + 1) (tr\<lparr>t_stack := t_stack tr @ [java_frame g]\<rparr>)
         | None \<Rightarrow>
             (case java_caused_by (lines ! i) of
                Some g \<Rightarrow> java_frames lines (i + 1) (java_add_cause g tr)
              | None \<Rightarrow> (i, tr)))
      else (i, tr))"
  by pat_completeness auto
termination
  by (relation "measure (\<lambda>(lines, i, tr). length lines - i)") auto

declare java_frames.simps [simp del]

lemma java_frames_cursor: "java_frames lines i tr = (j, out) \<Longrightarrow> i \<le> j"
proof (induction lines i tr arbitrary: j out rule: java_frames.induct)
  case (1 lines i tr)
  from "1.prems" show ?case
    by (subst (asm) java_frames.simps)
       (auto split: if_splits option.splits dest: "1.IH"(1) "1.IH"(2))
qed

function java_scan :: "string list \<Rightarrow> nat \<Rightarrow> trace list \<Rightarrow> trace list" where
  "java_scan lines i traces =
     (if i < length lines then
        (case java_exception_line (lines ! i) of
           Some (ty, msg) \<Rightarrow>
             (case java_frames lines (i + 1) (java_new_trace ty msg) of
                (j, tr) \<Rightarrow> java_scan lines (j + 1) (traces @ [tr]))
         | None \<Rightarrow> java_scan lines (i + 1) traces)
      else traces)"
  by pat_completeness auto
termination
  by (relation "measure (\<lambda>(lines, i, traces). length lines - i)")
    (auto dest!: java_frames_cursor [OF sym])

declare java_scan.simps [simp del]

definition parse_java :: "string \<Rightarrow> trace list" where
  "parse_java text = java_scan (split_nl text) 0 []"

section \<open>The Go scanner\<close>

text \<open>\<^verbatim>\<open>^panic: (.+)\<close>\<close>

definition go_panic_line :: "string \<Rightarrow> string option" where
  "go_panic_line s = do {
     r \<leftarrow> lit ''panic: '' s;
     (msg, r1) \<leftarrow> many1 is_dot r;
     Some msg
   }"

text \<open>
  The end \<^verbatim>\<open>.+\]:\<close> of the goroutine header: some later place, after at least one
  character and before any newline, holds \<^verbatim>\<open>]:\<close>. \<open>seen\<close> says that the dot has
  taken a character already.
\<close>

fun go_bracket_close :: "bool \<Rightarrow> string \<Rightarrow> bool" where
  "go_bracket_close seen [] = False"
| "go_bracket_close seen (c # cs) =
     ((seen \<and> lit '']:'' (c # cs) \<noteq> None) \<or> (is_dot c \<and> go_bracket_close True cs))"

text \<open>\<^verbatim>\<open>^goroutine \d+ \[.+\]:\<close>\<close>

definition go_goroutine :: "string \<Rightarrow> bool" where
  "go_goroutine s =
     (case do {
        r0 \<leftarrow> lit ''goroutine '' s;
        (n, r1) \<leftarrow> many1 is_digit r0;
        lit '' ['' r1
      } of
        Some r2 \<Rightarrow> go_bracket_close False r2
      | None \<Rightarrow> False)"

text \<open>
  \<^verbatim>\<open>^(.+)\(.*\)\<close>: the group is greedy, so it ends before the last opening
  parenthesis that has a closing one after it on the same line.
\<close>

fun go_func_split :: "string \<Rightarrow> string \<Rightarrow> string option" where
  "go_func_split pre [] = None"
| "go_func_split pre (c # cs) =
     (case (if is_dot c then go_func_split (pre @ [c]) cs else None) of
        Some g \<Rightarrow> Some g
      | None \<Rightarrow>
          (if pre \<noteq> [] \<and> c = CHR ''('' \<and> CHR '')'' \<in> set (takeWhile is_dot cs)
           then Some pre else None))"

definition go_file_line :: "string \<Rightarrow> string option" where
  "go_file_line s = go_func_split [] s"

text \<open>
  \<^verbatim>\<open>^\s+([^:]+):(\d+)\<close>: whitespace is also in the class of the group, and neither
  can cross the first colon. The leading whitespace all goes to \<^verbatim>\<open>\s+\<close> when other
  characters follow before the colon; when only whitespace stands before the colon,
  \<^verbatim>\<open>\s+\<close> gives its last character back to the group.
\<close>

definition go_location :: "string \<Rightarrow> (string \<times> string) option" where
  "go_location s =
     (let ws = takeWhile is_space s; body = takeWhile not_colon s
      in if ws = [] \<or> length body < 2 then None
         else do {
           r1 \<leftarrow> lit '':'' (dropWhile not_colon s);
           (line_num, r2) \<leftarrow> many1 is_digit r1;
           Some (if length ws < length body then drop (length ws) body else [last body],
                 line_num)
         })"

definition go_new_trace :: "string \<Rightarrow> trace" where
  "go_new_trace msg = \<lparr>t_language = Go, t_error_type = None,
     t_error_message = Some msg, t_stack = [], t_caused_by = None\<rparr>"

definition go_frame :: "string \<Rightarrow> string \<times> string \<Rightarrow> frame" where
  "go_frame fn g = (case g of (filename, line_num) \<Rightarrow>
     \<lparr>f_file = filename, f_line = int_of_digits line_num, f_function = Some fn,
      f_method = None, f_column = None, f_code = None\<rparr>)"

text \<open>
  The inner loop of \<^verbatim>\<open>_parse_go\<close>. A goroutine header is passed over; a call line
  with a location line after it is a frame; any other line ends the loop once the stack
  holds a frame, and is passed over while the stack is empty.
\<close>

function go_frames :: "string list \<Rightarrow> nat \<Rightarrow> trace \<Rightarrow> nat \<times> trace" where
  "go_frames lines i tr =
     (if i < length lines then
        (if go_goroutine (lines ! i) then go_frames lines (i + 1) tr
         else
           (case (if i + 1 < length lines then go_file_line (lines ! i) else None) of
              Some fn \<Rightarrow>
                (case go_location (lines ! (i + 1)) of
                   Some g \<Rightarrow>
                     go_frames lines (i + 2) (tr\<lparr>t_stack := t_stack tr @ [go_frame fn g]\<rparr>)
                 | None \<Rightarrow> go_frames lines (i + 1) tr)
            | None \<Rightarrow>
                (if t_stack tr \<noteq> [] then (i, tr) else go_frames lines (i + 1) tr)))
      else (i, tr))"
  by pat_completeness auto
termination
  by (relation "measure (\<lambda>(lines, i, tr). length lines - i)") (auto split: if_splits)

declare go_frames.simps [simp del]

lemma go_frames_cursor: "go_frames lines i tr = (j, out) \<Longrightarrow> i \<le> j"
proof (induction lines i tr arbitrary: j out rule: go_frames.induct)
  case (1 lines i tr)
  from "1.prems" "1.IH" show ?case
    apply (subst (asm) go_frames.simps)
    apply (simp split: if_splits option.splits)
    apply (auto dest!: Suc_leD)
    apply (fastforce dest!: Suc_leD)+
    done
qed

function go_scan :: "string list \<Rightarrow> nat \<Rightarrow> trace list \<Rightarrow> trace list" where
  "go_scan lines i traces =
     (if i < length lines then
        (case go_panic_line (lines ! i) of
           Some msg \<Rightarrow>
             (case go_frames lines (i + 1) (go_new_trace msg) of
                (j, tr) \<Rightarrow>
                  go_scan lines (j + 1) (if t_stack tr \<noteq> [] then traces @ [tr] else traces))
         | None \<Rightarrow> go_scan lines (i + 1) traces)
      else traces)"
  by pat_completeness auto
termination
  by (relation "measure (\<lambda>(lines, i, traces). length lines - i)")
    (auto dest!: go_frames_cursor [OF sym])

declare go_scan.simps [simp del]

definition parse_go :: "string \<Rightarrow> trace list" where
  "parse_go text = go_scan (split_nl text) 0 []"

section \<open>All four scanners\<close>

text \<open>
  \<^verbatim>\<open>parse_text\<close> walks the keys of \<^verbatim>\<open>PATTERNS\<close> in the order they are written and
  extends the result with what the scanner of each language returns.
\<close>

definition patterns_keys :: "language list" where
  "patterns_keys = [Python, Javascript, Java, Go]"

fun parse_lang :: "language \<Rightarrow> string \<Rightarrow> trace list" where
  "parse_lang Python text = parse_python text"
| "parse_lang Javascript text = parse_javascript text"
| "parse_lang Java text = parse_java text"
| "parse_lang Go text = parse_go text"

definition parse_text :: "string \<Rightarrow> trace list" where
  "parse_text text = foldl (\<lambda>traces lang. traces @ parse_lang lang text) [] patterns_keys"


section \<open>The log analyzer\<close>

text \<open>
  \<^verbatim>\<open>re.IGNORECASE\<close> on ASCII text: a letter of the pattern matches in both cases.
  The keywords below are written in lower case.
\<close>

definition lower_char :: "char \<Rightarrow> char" where
  "lower_char c = (let n = (of_char c :: nat) in if 65 \<le> n \<and> n \<le> 90 then char_of (n + 32) else c)"

fun lit_ci :: "string \<Rightarrow> string \<Rightarrow> string option" where
  "lit_ci [] s = Some s"
| "lit_ci (p # ps) [] = None"
| "lit_ci (p # ps) (c # cs) = (if p = lower_char c then lit_ci ps cs else None)"

text \<open>\<^verbatim>\<open>pattern.search\<close> as a test: the pattern matches at some position.\<close>

fun search :: "(string \<Rightarrow> bool) \<Rightarrow> string \<Rightarrow> bool" where
  "search m [] = m []"
| "search m (c # cs) = (m (c # cs) \<or> search m cs)"

text \<open>\<^verbatim>\<open>pattern.search\<close> for its match: the one at the first position that has one.\<close>

fun search_first :: "(string \<Rightarrow> 'a option) \<Rightarrow> string \<Rightarrow> 'a option" where
  "search_first m [] = m []"
| "search_first m (c # cs) = (case m (c # cs) of Some r \<Rightarrow> Some r | None \<Rightarrow> search_first m cs)"

text \<open>\<^verbatim>\<open>(ERROR|CRITICAL|FATAL)\<close> and \<^verbatim>\<open>WARN(?:ING)?\<close>, both ignoring case.\<close>

definition error_at :: "string \<Rightarrow> bool" where
  "error_at s = (lit_ci ''error'' s \<noteq> None \<or> lit_ci ''critical'' s \<noteq> None \<or> lit_ci ''fatal'' s \<noteq> None)"

definition warning_at :: "string \<Rightarrow> bool" where
  "warning_at s = (case lit_ci ''warn'' s of
     Some r \<Rightarrow> (case lit_ci ''ing'' r of Some r' \<Rightarrow> True | None \<Rightarrow> True)
   | None \<Rightarrow> False)"

text \<open>\<^verbatim>\<open>\d{n}\<close> and one character of a class.\<close>

definition digits_n :: "nat \<Rightarrow> string \<Rightarrow> string option" where
  "digits_n n s = (if n \<le> length s \<and> list_all is_digit (take n s) then Some (drop n s) else None)"

definition one_of :: "(char \<Rightarrow> bool) \<Rightarrow> string \<Rightarrow> string option" where
  "one_of P s = (case s of [] \<Rightarrow> None | c # cs \<Rightarrow> if P c then Some cs else None)"

text \<open>
  \<^verbatim>\<open>\d{4}-\d{2}-\d{2}[T\s]\d{2}:\d{2}:\d{2}\<close> at the start of the text: what is left
  after the 19 characters of the match.
\<close>

definition timestamp_at :: "string \<Rightarrow> string option" where
  "timestamp_at s = do {
     r1 \<leftarrow> digits_n 4 s;
     r2 \<leftarrow> lit ''-'' r1;
     r3 \<leftarrow> digits_n 2 r2;
     r4 \<leftarrow> lit ''-'' r3;
     r5 \<leftarrow> digits_n 2 r4;
     r6 \<leftarrow> one_of (\<lambda>c. c = CHR ''T'' \<or> is_space c) r5;
     r7 \<leftarrow> digits_n 2 r6;
     r8 \<leftarrow> lit '':'' r7;
     r9 \<leftarrow> digits_n 2 r8;
     r10 \<leftarrow> lit '':'' r9;
     digits_n 2 r10
   }"

definition timestamp_group :: "string \<Rightarrow> string option" where
  "timestamp_group s = map_option (\<lambda>r. take (length s - length r) s) (timestamp_at s)"

text \<open>
  \<^verbatim>\<open>re.sub(pattern, '', line)\<close> for a pattern that never matches the empty text. The
  matcher sees the character before the position (for \<^verbatim>\<open>\b\<close>) and the text from the
  position on, and returns the length of its match. \<open>k\<close> counts the characters of the
  current match that are still to be dropped; the next match is looked for after it.
\<close>

fun re_sub :: "(char option \<Rightarrow> string \<Rightarrow> nat option) \<Rightarrow> char option \<Rightarrow> nat \<Rightarrow> string \<Rightarrow> string" where
  "re_sub m prev k [] = []"
| "re_sub m prev k (c # cs) =
     (if 0 < k then re_sub m (Some c) (k - 1) cs
      else (case m prev (c # cs) of
              Some n \<Rightarrow> re_sub m (Some c) (n - 1) cs
            | None \<Rightarrow> c # re_sub m (Some c) 0 cs))"

text \<open>\<^verbatim>\<open>\d{4}-\d{2}-\d{2}[T\s]\d{2}:\d{2}:\d{2}[.,\d]*\<close>\<close>

definition is_fraction :: "char \<Rightarrow> bool" where
  "is_fraction c = (c = CHR ''.'' \<or> c = CHR '','' \<or> is_digit c)"

definition timestamp_long :: "char option \<Rightarrow> string \<Rightarrow> nat option" where
  "timestamp_long prev s =
     map_option (\<lambda>r. length s - length (dropWhile is_fraction r)) (timestamp_at s)"

text \<open>
  \<^verbatim>\<open>\b(ERROR|WARN(?:ING)?|INFO|DEBUG|CRITICAL|FATAL)\b\<close>, ignoring case. An
  alternative counts only when a word boundary follows it; \<^verbatim>\<open>WARNING\<close> is tried
  before \<^verbatim>\<open>WARN\<close>.
\<close>

definition word_boundary :: "char option \<Rightarrow> string \<Rightarrow> bool" where
  "word_boundary prev s =
     ((case prev of None \<Rightarrow> False | Some p \<Rightarrow> is_word p)
      \<noteq> (case s of [] \<Rightarrow> False | c # cs \<Rightarrow> is_word c))"

definition keyword_at :: "string \<Rightarrow> string \<Rightarrow> nat option" where
  "keyword_at kw s = (case lit_ci kw s of
     Some r \<Rightarrow> if word_boundary (Some (last kw)) r then Some (length kw) else None
   | None \<Rightarrow> None)"

fun first_keyword :: "string list \<Rightarrow> string \<Rightarrow> nat option" where
  "first_keyword [] s = None"
| "first_keyword (kw # kws) s =
     (case keyword_at kw s of Some n \<Rightarrow> Some n | None \<Rightarrow> first_keyword kws s)"

definition level_at :: "char option \<Rightarrow> string \<Rightarrow> nat option" where
  "level_at prev s =
     (if word_boundary prev s
      then first_keyword [''error'', ''warning'', ''warn'', ''info'', ''debug'', ''critical'', ''fatal''] s
      else None)"

text \<open>\<^verbatim>\<open>\[[\w\.]+\]\<close>\<close>

definition logger_at :: "char option \<Rightarrow> string \<Rightarrow> nat option" where
  "logger_at prev s = do {
     r \<leftarrow> lit ''['' s;
     (name, r1) \<leftarrow> many1 is_word_dot r;
     r2 \<leftarrow> lit '']'' r1;
     Some (length name + 2)
   }"

definition is_separator :: "char \<Rightarrow> bool" where
  "is_separator c = (c = CHR '' '' \<or> c = CHR '':'' \<or> c = CHR ''|'' \<or> c = CHR ''-'')"

text \<open>\<^verbatim>\<open>_extract_error_message\<close>\<close>

definition extract_error_message :: "string \<Rightarrow> string" where
  "extract_error_message line =
     (let l1 = re_sub timestamp_long None 0 line;
          l2 = re_sub level_at None 0 l1;
          l3 = re_sub logger_at None 0 l2;
          l4 = strip_with is_separator l3
      in take 100 l4)"

text \<open>
  The result of \<^verbatim>\<open>analyze_file\<close>. The two \<^verbatim>\<open>defaultdict(int)\<close> and the
  \<^verbatim>\<open>defaultdict(list)\<close> are association lists in insertion order, with one entry a key.
\<close>

record analysis =
  a_total_lines :: int
  a_errors :: "(string \<times> int) list"
  a_warnings :: "(string \<times> int) list"
  a_patterns :: "(string \<times> (int \<times> string) list) list"
  a_timestamps :: "string list"

text \<open>\<^verbatim>\<open>d[k] += 1\<close> on a \<^verbatim>\<open>defaultdict(int)\<close>: a missing key starts from 0.\<close>

fun incr :: "string \<Rightarrow> (string \<times> int) list \<Rightarrow> (string \<times> int) list" where
  "incr k [] = [(k, 1)]"
| "incr k ((k', v) # kvs) = (if k = k' then (k', v + 1) # kvs else (k', v) # incr k kvs)"

text \<open>\<^verbatim>\<open>d[k].append(x)\<close> on a \<^verbatim>\<open>defaultdict(list)\<close>.\<close>

fun append_to :: "string \<Rightarrow> 'a \<Rightarrow> (string \<times> 'a list) list \<Rightarrow> (string \<times> 'a list) list" where
  "append_to k x [] = [(k, [x])]"
| "append_to k x ((k', xs) # kvs) =
     (if k = k' then (k', xs @ [x]) # kvs else (k', xs) # append_to k x kvs)"

text \<open>
  \<^verbatim>\<open>f.readlines()\<close> on the text of the file (after the translation of line ends
  that reading in text mode does): every line keeps its newline, the last line has one
  only if the file ends with one.
\<close>

fun readlines_from :: "string \<Rightarrow> string \<Rightarrow> string list" where
  "readlines_from cur [] = (if cur = [] then [] else [cur])"
| "readlines_from cur (c # cs) =
     (if c = newline then (cur @ [c]) # readlines_from [] cs
      else readlines_from (cur @ [c]) cs)"

definition readlines :: "string \<Rightarrow> string list" where
  "readlines text = readlines_from [] text"

text \<open>The body of the loop of \<^verbatim>\<open>analyze_file\<close>, for line number \<open>i\<close>.\<close>

definition analyze_line :: "string option \<Rightarrow> int \<Rightarrow> string \<Rightarrow> analysis \<Rightarrow> analysis" where
  "analyze_line pattern i line a =
     (let a1 = (if search error_at line
                then a\<lparr>a_errors := incr (extract_error_message line) (a_errors a)\<rparr> else a);
          a2 = (if search warning_at line
                then a1\<lparr>a_warnings := incr (extract_error_message line) (a_warnings a1)\<rparr> else a1);
          a3 = (case search_first timestamp_group line of
                  Some ts \<Rightarrow> a2\<lparr>a_timestamps := a_timestamps a2 @ [ts]\<rparr>
                | None \<Rightarrow> a2)
      in (case pattern of
            Some p \<Rightarrow>
              if p \<noteq> [] \<and> search (\<lambda>s. lit p s \<noteq> None) line
              then a3\<lparr>a_patterns := append_to p (i, strip line) (a_patterns a3)\<rparr> else a3
          | None \<Rightarrow> a3))"

fun analyze_loop :: "string option \<Rightarrow> int \<Rightarrow> string list \<Rightarrow> analysis \<Rightarrow> analysis" where
  "analyze_loop pattern i [] a = a"
| "analyze_loop pattern i (line # rest) a =
     analyze_loop pattern (i + 1) rest (analyze_line pattern i line a)"

definition analyze_lines :: "string list \<Rightarrow> string option \<Rightarrow> analysis" where
  "analyze_lines lines pattern =
     analyze_loop pattern 1 lines
       \<lparr>a_total_lines = int (length lines), a_errors = [], a_warnings = [],
        a_patterns = [], a_timestamps = []\<rparr>"

text \<open>
  \<^verbatim>\<open>analyze_file\<close>: the content of the file, or \<open>None\<close> when it is not found; then
  the result is the empty dictionary, here \<open>None\<close>.
\<close>

definition analyze_file :: "string option \<Rightarrow> string option \<Rightarrow> analysis option" where
  "analyze_file content pattern =
     (case content of
        None \<Rightarrow> None
      | Some text \<Rightarrow> Some (analyze_lines (readlines text) pattern))"

section \<open>Properties of the scanners\<close>

subsection \<open>Auxiliary facts\<close>

text \<open>Unfolding sets for evaluating the matchers on concrete lines.\<close>

lemmas class_defs = newline_def dquote_def is_digit_def is_alpha_def is_word_def is_space_def
  is_dot_def is_word_dot_def is_word_dot_dollar_def not_colon_def not_dquote_def

lemmas matcher_defs = many1_def has_suffix1_def error_head_def py_traceback_start_def
  py_file_line_def py_error_line_def js_error_line_def js_at_tail_def js_at_line_def
  js_at_line_simple_def java_exception_line_def java_at_line_def java_caused_by_def
  go_panic_line_def go_goroutine_def go_file_line_def go_location_def

lemma many1_class: "many1 P s = Some (a, r) \<Longrightarrow> c \<in> set a \<Longrightarrow> P c"
  by (auto simp: many1_def split: if_splits dest: set_takeWhileD)

lemma digit_val_nonneg: "is_digit c \<Longrightarrow> 0 \<le> digit_val c"
  by (simp add: is_digit_def digit_val_def Let_def)

lemma foldl_digits_nonneg:
  "0 \<le> a \<Longrightarrow> \<forall>c\<in>set s. is_digit c \<Longrightarrow> 0 \<le> foldl (\<lambda>a c. 10 * a + digit_val c) a s"
proof (induction s arbitrary: a)
  case Nil
  then show ?case by simp
next
  case (Cons c s)
  from Cons.prems have "0 \<le> 10 * a + digit_val c"
    using digit_val_nonneg [of c] by simp
  with Cons.IH [of "10 * a + digit_val c"] Cons.prems show ?case by simp
qed

lemma int_of_digits_nonneg: "\<forall>c\<in>set s. is_digit c \<Longrightarrow> 0 \<le> int_of_digits s"
  unfolding int_of_digits_def by (rule foldl_digits_nonneg) simp_all

lemma py_file_line_digits: "py_file_line s = Some (f, n, fn) \<Longrightarrow> \<forall>c\<in>set n. is_digit c"
  unfolding py_file_line_def
  by (auto split: Option.bind_splits) (blast intro: many1_class)

lemma js_at_tail_digits: "js_at_tail s = Some (f, n, col) \<Longrightarrow> \<forall>c\<in>set n. is_digit c"
  unfolding js_at_tail_def
  by (auto split: Option.bind_splits) (blast intro: many1_class)

lemma js_at_split_digits: "js_at_split pre s = Some (fn, f, n, col) \<Longrightarrow> \<forall>c\<in>set n. is_digit c"
proof (induction pre s rule: js_at_split.induct)
  case (1 pre)
  then show ?case by simp
next
  case (2 pre c cs)
  then show ?case
    by (auto split: option.splits if_splits Option.bind_splits) (blast dest: js_at_tail_digits)+
qed

lemma js_at_line_digits: "js_at_line s = Some (fn, f, n, col) \<Longrightarrow> \<forall>c\<in>set n. is_digit c"
  unfolding js_at_line_def
  by (auto split: Option.bind_splits) (blast dest: js_at_split_digits)

lemma js_at_line_simple_digits: "js_at_line_simple s = Some (f, n, col) \<Longrightarrow> \<forall>c\<in>set n. is_digit c"
  unfolding js_at_line_simple_def
  by (auto split: Option.bind_splits) (blast intro: many1_class)

lemma java_at_line_digits: "java_at_line s = Some (m, f, n) \<Longrightarrow> \<forall>c\<in>set n. is_digit c"
  unfolding java_at_line_def
  by (auto split: Option.bind_splits) (blast intro: many1_class)

lemma go_location_digits: "go_location s = Some (f, n) \<Longrightarrow> \<forall>c\<in>set n. is_digit c"
  unfolding go_location_def
  by (auto simp: Let_def split: Option.bind_splits if_splits) (blast intro: many1_class)+


definition trace_ok :: "language \<Rightarrow> trace \<Rightarrow> bool" where
  "trace_ok L tr = (t_language tr = L \<and> list_all (\<lambda>f. 0 \<le> f_line f) (t_stack tr))"

lemma trace_ok_new:
  "trace_ok Python py_new_trace" "trace_ok Javascript (js_new_trace ty msg)"
  "trace_ok Java (java_new_trace ty msg)" "trace_ok Go (go_new_trace msg)"
  by (simp_all add: trace_ok_def py_new_trace_def js_new_trace_def java_new_trace_def
      go_new_trace_def)

lemma py_frame_line: "py_file_line s = Some g \<Longrightarrow> 0 \<le> f_line (py_frame lines i g)"
  by (cases g) (auto simp: py_frame_def dest!: py_file_line_digits intro: int_of_digits_nonneg)

lemma js_frame_line: "js_at_line s = Some g \<Longrightarrow> 0 \<le> f_line (js_frame g)"
  by (cases g) (auto simp: js_frame_def dest!: js_at_line_digits intro: int_of_digits_nonneg)

lemma js_frame_simple_line: "js_at_line_simple s = Some g \<Longrightarrow> 0 \<le> f_line (js_frame_simple g)"
  by (cases g)
    (auto simp: js_frame_simple_def dest!: js_at_line_simple_digits intro: int_of_digits_nonneg)

lemma java_frame_line: "java_at_line s = Some g \<Longrightarrow> 0 \<le> f_line (java_frame g)"
  by (cases g) (auto simp: java_frame_def dest!: java_at_line_digits intro: int_of_digits_nonneg)

lemma go_frame_line: "go_location s = Some g \<Longrightarrow> 0 \<le> f_line (go_frame fn g)"
  by (cases g) (auto simp: go_frame_def dest!: go_location_digits intro: int_of_digits_nonneg)

lemma python_frames_ok:
  "trace_ok Python tr \<Longrightarrow> list_all (trace_ok Python) traces \<Longrightarrow>
   python_frames lines i tr traces = (j, out) \<Longrightarrow> list_all (trace_ok Python) out"
proof (induction lines i tr traces rule: python_frames.induct)
  case (1 lines i tr traces)
  from "1.prems"(3) "1.prems"(1,2) "1.IH" show ?case
    by (subst (asm) python_frames.simps)
       (auto simp: trace_ok_def split: if_splits option.splits dest: py_frame_line)
qed

lemma python_scan_ok:
  "list_all (trace_ok Python) traces \<Longrightarrow> list_all (trace_ok Python) (python_scan lines i traces)"
proof (induction lines i traces rule: python_scan.induct)
  case (1 lines i traces)
  from "1.prems" "1.IH" show ?case
    by (subst python_scan.simps)
       (auto split: prod.splits dest: python_frames_ok [OF trace_ok_new(1)])
qed

lemma js_frames_ok:
  "trace_ok Javascript tr \<Longrightarrow> js_frames lines i tr = (j, out) \<Longrightarrow> trace_ok Javascript out"
proof (induction lines i tr rule: js_frames.induct)
  case (1 lines i tr)
  from "1.prems"(2) "1.prems"(1) "1.IH" show ?case
    by (subst (asm) js_frames.simps)
       (auto simp: trace_ok_def split: if_splits option.splits
          dest: js_frame_line js_frame_simple_line)
qed

lemma js_scan_ok:
  "list_all (trace_ok Javascript) traces \<Longrightarrow> list_all (trace_ok Javascript) (js_scan lines i traces)"
proof (induction lines i traces rule: js_scan.induct)
  case (1 lines i traces)
  from "1.prems" "1.IH" show ?case
    by (subst js_scan.simps)
       (fastforce split: prod.splits option.splits dest: js_frames_ok [OF trace_ok_new(2)])
qed

lemma java_frames_ok:
  "trace_ok Java tr \<Longrightarrow> java_frames lines i tr = (j, out) \<Longrightarrow> trace_ok Java out"
proof (induction lines i tr rule: java_frames.induct)
  case (1 lines i tr)
  from "1.prems"(2) "1.prems"(1) "1.IH" show ?case
    by (subst (asm) java_frames.simps)
       (auto simp: trace_ok_def java_add_cause_def split: if_splits option.splits
          dest: java_frame_line)
qed

lemma java_scan_ok:
  "list_all (trace_ok Java) traces \<Longrightarrow> list_all (trace_ok Java) (java_scan lines i traces)"
proof (induction lines i traces rule: java_scan.induct)
  case (1 lines i traces)
  from "1.prems" "1.IH" show ?case
    by (subst java_scan.simps)
       (fastforce split: prod.splits option.splits dest: java_frames_ok [OF trace_ok_new(3)])
qed

lemma go_frames_ok:
  "trace_ok Go tr \<Longrightarrow> go_frames lines i tr = (j, out) \<Longrightarrow> trace_ok Go out"
proof (induction lines i tr rule: go_frames.induct)
  case (1 lines i tr)
  from "1.prems"(2) "1.prems"(1) "1.IH" show ?case
    by (subst (asm) go_frames.simps)
       (auto simp: trace_ok_def split: if_splits option.splits dest: go_frame_line)
qed

lemma go_scan_ok:
  "list_all (trace_ok Go) traces \<Longrightarrow> list_all (trace_ok Go) (go_scan lines i traces)"
proof (induction lines i traces rule: go_scan.induct)
  case (1 lines i traces)
  from "1.prems" "1.IH" show ?case
    by (subst go_scan.simps)
       (fastforce split: prod.splits option.splits dest: go_frames_ok [OF trace_ok_new(4)])
qed

lemma python_scan_no_start:
  "\<forall>l\<in>set lines. \<not> py_traceback_start l \<Longrightarrow> python_scan lines i traces = traces"
proof (induction lines i traces rule: python_scan.induct)
  case (1 lines i traces)
  from "1.prems" "1.IH" show ?case
    by (subst python_scan.simps) auto
qed



lemma go_scan_no_start:
  "\<forall>l\<in>set lines. go_panic_line l = None \<Longrightarrow> go_scan lines i traces = traces"
proof (induction lines i traces rule: go_scan.induct)
  case (1 lines i traces)
  from "1.prems" "1.IH" show ?case
    by (subst go_scan.simps) auto
qed

lemma parse_text_concat:
  "parse_text text = parse_python text @ parse_javascript text @ parse_java text @ parse_go text"
  by (simp add: parse_text_def patterns_keys_def)

lemma scan_tags:
  "list_all (trace_ok Python) (parse_python text)"
  "list_all (trace_ok Javascript) (parse_javascript text)"
  "list_all (trace_ok Java) (parse_java text)"
  "list_all (trace_ok Go) (parse_go text)"
  unfolding parse_python_def parse_javascript_def parse_java_def parse_go_def
  by (simp_all add: python_scan_ok js_scan_ok java_scan_ok go_scan_ok)

lemma parse_lang_ok: "list_all (trace_ok L) (parse_lang L text)"
  by (cases L) (simp_all add: scan_tags)

lemma tags_replicate: "list_all (trace_ok L) rs \<Longrightarrow> map t_language rs = replicate (length rs) L"
  by (induction rs) (simp_all add: trace_ok_def)

subsection \<open>No start line, no record\<close>



subsection \<open>The order of the result\<close>

text \<open>
  Claim C1, as the code has it. \<^verbatim>\<open>parse_text\<close> returns what the Python scanner
  emits, then what the JavaScript scanner emits, then the Java scanner's and the Go
  scanner's records, each list in the scanner's own order; every record carries the tag
  of the scanner that emitted it. The number of records is the sum of the four lengths:
  it is 4, one record a language in the fixed order, exactly when each scanner emits one
  record on the text. A text with one trace of each kind does not ensure that: the Java
  start pattern also matches every JavaScript start line and every Python trailer that
  ends in Error or Exception, and the Java scanner emits a record without frames.
\<close>

theorem parse_text_order:
  "parse_text text = parse_python text @ parse_javascript text @ parse_java text @ parse_go text
   \<and> map t_language (parse_text text) =
       replicate (length (parse_python text)) Python
       @ replicate (length (parse_javascript text)) Javascript
       @ replicate (length (parse_java text)) Java
       @ replicate (length (parse_go text)) Go"
  by (simp add: parse_text_concat tags_replicate scan_tags)

theorem four_formats_counterexample:
  "map (\<lambda>r. (t_language r, t_error_type r, length (t_stack r)))
     (parse_text ''Traceback (most recent call last):\<newline>  File \"a.py\", line 1, in f\<newline>    x()\<newline>ValueError: bad\<newline>\<newline>TypeError: bad\<newline>    at a.js:1:2\<newline>\<newline>java.io.IOException: bad\<newline>    at a.B.c(B.java:3)\<newline>\<newline>panic: bad\<newline>main.f()\<newline>    /a.go:4'')
   = [(Python, Some ''ValueError'', 1), (Javascript, Some ''TypeError'', 1),
      (Java, Some ''ValueError'', 0), (Java, Some ''TypeError'', 0),
      (Java, Some ''java.io.IOException'', 1), (Go, None, 1)]"
  by code_simp

subsection \<open>A JavaScript start line without frames\<close>

lemma js_frames_stop:
  "i < length lines \<longrightarrow> js_at_line (lines ! i) = None \<and> js_at_line_simple (lines ! i) = None
   \<Longrightarrow> js_frames lines i tr = (i, tr)"
  by (subst js_frames.simps) auto

lemma js_scan_no_frames:
  "\<forall>l\<in>set lines. js_at_line l = None \<and> js_at_line_simple l = None
   \<Longrightarrow> js_scan lines i traces = traces"
proof (induction lines i traces rule: js_scan.induct)
  case (1 lines i traces)
  have stop: "js_frames lines (Suc i) tr = (Suc i, tr)" for tr
    using "1.prems" by (intro js_frames_stop) simp
  have empty: "t_stack (js_new_trace ty msg) = []" for ty msg
    by (simp add: js_new_trace_def)
  show ?case
  proof (cases "i < length lines")
    case False
    then show ?thesis by (subst js_scan.simps) simp
  next
    case True
    show ?thesis
    proof (cases "js_error_line (lines ! i)")
      case None
      with True "1.IH"(1) "1.prems" show ?thesis by (subst js_scan.simps) simp
    next
      case (Some g)
      obtain ty msg where g: "g = (ty, msg)" by (cases g)
      have "js_scan lines (Suc i + 1) traces = traces"
        using "1.IH"(2) [OF True Some [unfolded g] refl, of "Suc i" "js_new_trace ty msg"] "1.prems"
        by (simp add: stop empty)
      with True Some g show ?thesis
        by (subst js_scan.simps) (simp add: stop empty)
    qed
  qed
qed




subsection \<open>Line numbers of frames\<close>

text \<open>
  Claim C4, as the code has it. Every frame of every record that one of the four
  scanners emits has a line number that is at least 0: it is \<^verbatim>\<open>int\<close> of a run of
  decimal digits, and nothing in the scanners excludes the run \<^verbatim>\<open>0\<close>.
\<close>

theorem frame_line_nonneg:
  assumes "r \<in> set (parse_lang L text)" and "f \<in> set (t_stack r)"
  shows "0 \<le> f_line f"
  using assms parse_lang_ok [of L "text"] by (auto simp: list_all_iff trace_ok_def)

theorem frame_line_nonneg_witness:
  "0 \<le> f_line (hd (t_stack (hd (parse_lang Javascript ''RangeError: bad\<newline>  at a.js:0:7''))))"
proof -
  let ?rs = "parse_lang Javascript ''RangeError: bad\<newline>  at a.js:0:7''"
  have r: "?rs \<noteq> []" by code_simp
  have f: "t_stack (hd ?rs) \<noteq> []" by code_simp
  show ?thesis
    by (rule frame_line_nonneg [OF hd_in_set [OF r] hd_in_set [OF f]])
qed

theorem frame_line_zero_counterexample:
  "map (\<lambda>r. map f_line (t_stack r))
     (parse_lang Python ''Traceback (most recent call last):\<newline>  File \"a.py\", line 0, in f\<newline>    x()\<newline>ValueError: bad'')
   = [[0]]"
  by code_simp

subsection \<open>Leaving the frame loop\<close>














subsection \<open>The trailer of a Python traceback\<close>

lemma error_head_first: "error_head P sufs s = Some x \<Longrightarrow> s \<noteq> [] \<and> P (hd s)"
  unfolding error_head_def many1_def
  by (cases s) (auto split: Option.bind_splits if_splits)









subsection \<open>The line after a frame declaration\<close>



subsection \<open>A Java exception with a cause and no frames\<close>

lemma split_nl_line: "newline \<notin> set t \<Longrightarrow> split_nl t = [t]"
  by (induction t) auto

lemma split_nl_append: "newline \<notin> set s \<Longrightarrow> split_nl (s @ newline # t) = s # split_nl t"
  by (induction s) auto

lemma lit_append: "lit p s = Some r \<Longrightarrow> s = p @ r"
  by (induction p s rule: lit.induct) (auto split: if_splits)

lemma word_dot_not_space: "is_word_dot c \<Longrightarrow> \<not> is_space c"
  by (auto simp: is_word_dot_def is_word_def is_alpha_def is_digit_def is_space_def Let_def)

lemma js_at_line_first: "js_at_line s = Some x \<Longrightarrow> s \<noteq> [] \<and> is_space (hd s)"
  unfolding js_at_line_def many1_def
  by (cases s) (auto split: Option.bind_splits if_splits)

lemma js_at_line_simple_first: "js_at_line_simple s = Some x \<Longrightarrow> s \<noteq> [] \<and> is_space (hd s)"
  unfolding js_at_line_simple_def many1_def
  by (cases s) (auto split: Option.bind_splits if_splits)

lemma java_at_line_first: "java_at_line s = Some x \<Longrightarrow> s \<noteq> [] \<and> is_space (hd s)"
  unfolding java_at_line_def many1_def
  by (cases s) (auto split: Option.bind_splits if_splits)

lemma no_space_no_frame:
  assumes "s = [] \<or> \<not> is_space (hd s)"
  shows "js_at_line s = None" "js_at_line_simple s = None" "java_at_line s = None"
  using assms js_at_line_first [of s] js_at_line_simple_first [of s] java_at_line_first [of s]
  by (cases "js_at_line s"; cases "js_at_line_simple s"; cases "java_at_line s"; auto)+

lemma java_exception_first: "java_exception_line s = Some x \<Longrightarrow> s \<noteq> [] \<and> \<not> is_space (hd s)"
  unfolding java_exception_line_def
  by (auto dest!: error_head_first word_dot_not_space)

lemma java_exception_not_start:
  assumes "java_exception_line s = Some x"
  shows "\<not> py_traceback_start s" and "go_panic_line s = None"
proof -
  show "\<not> py_traceback_start s"
  proof
    assume "py_traceback_start s"
    then obtain r where "s = ''Traceback (most recent call last):'' @ r"
      unfolding py_traceback_start_def by (auto dest: lit_append)
    with assms show False
      by (simp add: java_exception_line_def error_head_def many1_def has_suffix1_def
          class_defs)
  qed
  show "go_panic_line s = None"
  proof (cases "lit ''panic: '' s")
    case None
    then show ?thesis by (simp add: go_panic_line_def)
  next
    case (Some r)
    then have "s = ''panic: '' @ r" by (rule lit_append)
    with assms show ?thesis
      by (simp add: java_exception_line_def error_head_def many1_def has_suffix1_def
          class_defs)
  qed
qed

lemma error_head_form:
  assumes "\<forall>c\<in>set x. cls c" and "\<not> cls (CHR '':'')"
    and "list_ex (\<lambda>suf. has_suffix1 suf x) sufs"
    and "msg \<noteq> []" and "newline \<notin> set msg"
  shows "error_head cls sufs (x @ '': '' @ msg) = Some (x, msg)"
proof -
  from assms(3) have "x \<noteq> []" by (auto simp: list_ex_iff has_suffix1_def)
  have t: "takeWhile cls (x @ CHR '':'' # CHR '' '' # msg) = x"
    and d: "dropWhile cls (x @ CHR '':'' # CHR '' '' # msg) = CHR '':'' # CHR '' '' # msg"
    using assms(1,2) by (simp_all add: takeWhile_append2 dropWhile_append2)
  have m: "takeWhile is_dot msg = msg"
    using assms(5) by (auto simp: takeWhile_eq_all_conv is_dot_def)
  show ?thesis
    using \<open>x \<noteq> []\<close> assms(3,4)
    by (simp add: error_head_def many1_def t d m)
qed

lemma java_caused_by_form:
  assumes "\<forall>c\<in>set x. is_word_dot c"
    and "has_suffix1 ''Exception'' x \<or> has_suffix1 ''Error'' x"
    and "msg \<noteq> []" and "newline \<notin> set msg"
  shows "java_caused_by (''Caused by: '' @ x @ '': '' @ msg) = Some (x, msg)"
proof -
  have "error_head is_word_dot [''Exception'', ''Error''] (x @ '': '' @ msg) = Some (x, msg)"
    using assms by (intro error_head_form) (auto simp: class_defs)
  then show ?thesis
    by (simp add: java_caused_by_def)
qed

lemma java_scan_cause:
  assumes "java_exception_line s = Some (ty, m)" and "java_at_line cb = None"
    and "java_caused_by cb = Some (x, msg)"
  shows "java_scan [s, cb] 0 [] =
     [\<lparr>t_language = Java, t_error_type = Some ty, t_error_message = Some m, t_stack = [],
       t_caused_by = Some [\<lparr>c_type = x, c_message = msg\<rparr>]\<rparr>]"
proof -
  let ?tr = "java_add_cause (x, msg) (java_new_trace ty m)"
  have "java_frames [s, cb] 1 (java_new_trace ty m) = java_frames [s, cb] (1 + 1) ?tr"
    using assms(2,3) by (subst java_frames.simps) simp
  also have "java_frames [s, cb] (1 + 1) ?tr = (2, ?tr)"
    by (subst java_frames.simps) simp
  finally have f: "java_frames [s, cb] (Suc 0) (java_new_trace ty m) = (2, ?tr)"
    by simp
  have stop: "java_scan [s, cb] 3 ts = ts" for ts
    by (subst java_scan.simps) simp
  show ?thesis
    using assms(1)
    by (subst java_scan.simps) (simp add: f stop, simp add: java_add_cause_def java_new_trace_def)
qed

text \<open>
  Claim C6, as the code has it. Let the text be a Java start line, a newline, and the
  line \<^verbatim>\<open>Caused by: X: msg\<close>, where \<open>X\<close> is made of word characters and dots and
  ends in \<^verbatim>\<open>Exception\<close> or \<^verbatim>\<open>Error\<close> after at least one other character, and
  \<open>msg\<close> is not empty (and neither line holds a newline). Then the result of
  \<^verbatim>\<open>parse_text\<close> is one record, tagged Java, with the type and message of the start
  line, no frames, and the one cause \<open>(X, msg)\<close>. The ending of \<open>X\<close> is required
  by the cause pattern: a cause line whose type does not end so is no cause line, and
  ends the loop with no cause recorded.
\<close>

theorem java_cause_without_frames:
  assumes "newline \<notin> set s" and "java_exception_line s = Some (ty, m)"
    and "\<forall>c\<in>set x. is_word_dot c"
    and "has_suffix1 ''Exception'' x \<or> has_suffix1 ''Error'' x"
    and "msg \<noteq> []" and "newline \<notin> set msg"
  shows "parse_text (s @ newline # ''Caused by: '' @ x @ '': '' @ msg) =
     [\<lparr>t_language = Java, t_error_type = Some ty, t_error_message = Some m, t_stack = [],
       t_caused_by = Some [\<lparr>c_type = x, c_message = msg\<rparr>]\<rparr>]"
proof -
  define cb where "cb = ''Caused by: '' @ x @ '': '' @ msg"
  have cause: "java_caused_by cb = Some (x, msg)"
    unfolding cb_def using assms(3-6) by (rule java_caused_by_form)
  have "newline \<notin> set x"
    using assms(3) by (auto simp: class_defs)
  with assms(6) have nl: "newline \<notin> set cb"
    by (auto simp: cb_def newline_def)
  have hd_cb: "cb \<noteq> [] \<and> \<not> is_space (hd cb)"
    by (simp add: cb_def is_space_def)
  have hd_s: "s \<noteq> [] \<and> \<not> is_space (hd s)"
    using assms(2) by (rule java_exception_first)
  have lines: "split_nl (s @ newline # cb) = [s, cb]"
    using assms(1) nl by (simp add: split_nl_append split_nl_line)
  have "\<not> py_traceback_start cb" "go_panic_line cb = None"
    by (simp_all add: cb_def py_traceback_start_def go_panic_line_def)
  with java_exception_not_start [OF assms(2)]
  have "python_scan [s, cb] 0 [] = []" and "go_scan [s, cb] 0 [] = []"
    by (simp_all add: python_scan_no_start go_scan_no_start)
  moreover have "js_scan [s, cb] 0 [] = []"
    using hd_cb hd_s by (intro js_scan_no_frames) (simp add: no_space_no_frame)
  moreover have "java_scan [s, cb] 0 [] =
     [\<lparr>t_language = Java, t_error_type = Some ty, t_error_message = Some m, t_stack = [],
       t_caused_by = Some [\<lparr>c_type = x, c_message = msg\<rparr>]\<rparr>]"
    using assms(2) hd_cb cause by (intro java_scan_cause) (simp_all add: no_space_no_frame)
  ultimately have "parse_text (s @ newline # cb) =
     [\<lparr>t_language = Java, t_error_type = Some ty, t_error_message = Some m, t_stack = [],
       t_caused_by = Some [\<lparr>c_type = x, c_message = msg\<rparr>]\<rparr>]"
    by (simp add: parse_text_concat parse_python_def parse_javascript_def parse_java_def
        parse_go_def lines)
  then show ?thesis by (simp only: cb_def)
qed

theorem java_cause_without_frames_witness:
  "parse_text (''java.lang.IllegalStateException: boom'' @ newline #
      ''Caused by: '' @ ''java.io.IOException'' @ '': '' @ ''disk full'') =
     [\<lparr>t_language = Java, t_error_type = Some ''java.lang.IllegalStateException'',
       t_error_message = Some ''boom'', t_stack = [],
       t_caused_by = Some [\<lparr>c_type = ''java.io.IOException'', c_message = ''disk full''\<rparr>]\<rparr>]"
proof -
  have h: "newline \<notin> set ''java.lang.IllegalStateException: boom''"
    "java_exception_line ''java.lang.IllegalStateException: boom''
       = Some (''java.lang.IllegalStateException'', ''boom'')"
    "\<forall>c\<in>set ''java.io.IOException''. is_word_dot c"
    "has_suffix1 ''Exception'' ''java.io.IOException'' \<or> has_suffix1 ''Error'' ''java.io.IOException''"
    "''disk full'' \<noteq> []" "newline \<notin> set ''disk full''"
    by (simp_all add: class_defs matcher_defs)
  show ?thesis by (rule java_cause_without_frames [OF h])
qed

theorem caused_by_x_counterexample:
  "java_exception_line ''java.lang.RuntimeException: boom''
     = Some (''java.lang.RuntimeException'', ''boom'')
   \<and> java_caused_by ''Caused by: X: msg'' = None
   \<and> parse_text ''java.lang.RuntimeException: boom\<newline>Caused by: X: msg'' =
     [\<lparr>t_language = Java, t_error_type = Some ''java.lang.RuntimeException'',
       t_error_message = Some ''boom'', t_stack = [], t_caused_by = Some []\<rparr>]"
  by code_simp

section \<open>Properties of the log analyzer\<close>

subsection \<open>Counts and matching lines\<close>

lemma incr_sum: "sum_list (map snd (incr k al)) = sum_list (map snd al) + 1"
  by (induction k al rule: incr.induct) auto

lemma incr_keys: "set (map fst (incr k al)) = insert k (set (map fst al))"
  by (induction k al rule: incr.induct) auto

lemma incr_distinct: "distinct (map fst al) \<Longrightarrow> distinct (map fst (incr k al))"
proof (induction k al rule: incr.induct)
  case (1 k)
  then show ?case by simp
next
  case (2 k k' v kvs)
  then show ?case
    using incr_keys [of k kvs] by auto
qed

definition counts_ok :: "analysis \<Rightarrow> bool" where
  "counts_ok a = (distinct (map fst (a_errors a)) \<and> distinct (map fst (a_warnings a)))"

lemma analyze_line_counts:
  "sum_list (map snd (a_errors (analyze_line pattern i line a)))
     = sum_list (map snd (a_errors a)) + (if search error_at line then 1 else 0)"
  "sum_list (map snd (a_warnings (analyze_line pattern i line a)))
     = sum_list (map snd (a_warnings a)) + (if search warning_at line then 1 else 0)"
  "a_total_lines (analyze_line pattern i line a) = a_total_lines a"
  "counts_ok a \<Longrightarrow> counts_ok (analyze_line pattern i line a)"
  by (auto simp: analyze_line_def Let_def incr_sum incr_distinct counts_ok_def
      split: option.splits)

lemma analyze_loop_counts:
  "sum_list (map snd (a_errors (analyze_loop pattern i lines a)))
     = sum_list (map snd (a_errors a)) + int (length (filter (search error_at) lines))
   \<and> sum_list (map snd (a_warnings (analyze_loop pattern i lines a)))
     = sum_list (map snd (a_warnings a)) + int (length (filter (search warning_at) lines))
   \<and> a_total_lines (analyze_loop pattern i lines a) = a_total_lines a
   \<and> (counts_ok a \<longrightarrow> counts_ok (analyze_loop pattern i lines a))"
proof (induction lines arbitrary: i a)
  case Nil
  then show ?case by simp
next
  case (Cons line rest)
  show ?case
    using Cons.IH [of "i + 1" "analyze_line pattern i line a"]
    by (simp add: analyze_line_counts)
qed

text \<open>
  Claim C8. For every list of lines and every custom pattern, the values in the errors
  mapping of the analysis add up to the number of lines in which the error pattern is
  found, the values in the warnings mapping add up to the number of lines in which the
  warning pattern is found, and \<^verbatim>\<open>total_lines\<close> is the number of lines. The keys of
  each association list are distinct, so the lists are mappings and the sums are the
  sums of their values.
\<close>

theorem analyze_sums:
  "sum_list (map snd (a_errors (analyze_lines lines pattern)))
     = int (length (filter (search error_at) lines))
   \<and> sum_list (map snd (a_warnings (analyze_lines lines pattern)))
     = int (length (filter (search warning_at) lines))
   \<and> a_total_lines (analyze_lines lines pattern) = int (length lines)
   \<and> distinct (map fst (a_errors (analyze_lines lines pattern)))
   \<and> distinct (map fst (a_warnings (analyze_lines lines pattern)))"
  using analyze_loop_counts [of pattern 1 lines
      "\<lparr>a_total_lines = int (length lines), a_errors = [], a_warnings = [],
        a_patterns = [], a_timestamps = []\<rparr>"]
  by (simp add: analyze_lines_def counts_ok_def)

theorem analyze_sums_witness:
  "(let a = analyze_lines (readlines ''INFO boot\<newline>ERROR [db] down\<newline>WARNING slow\<newline>fatal: crash\<newline>done\<newline>'') None
    in a_total_lines a = 5 \<and> sum_list (map snd (a_errors a)) = 2
       \<and> sum_list (map snd (a_warnings a)) = 1)"
proof -
  let ?L = "readlines ''INFO boot\<newline>ERROR [db] down\<newline>WARNING slow\<newline>fatal: crash\<newline>done\<newline>''"
  have n: "length ?L = 5" by code_simp
  have e: "length (filter (search error_at) ?L) = 2" by code_simp
  have w: "length (filter (search warning_at) ?L) = 1" by code_simp
  show ?thesis
    using analyze_sums [of ?L None] n e w by (simp add: Let_def)
qed

subsection \<open>The key of a line that ends the file\<close>

text \<open>
  Claim C9 at a file of exactly the two lines, the second without a final newline. The
  normalisation gives both bare lines the key \<^verbatim>\<open>disk full\<close>. But \<^verbatim>\<open>readlines\<close>
  leaves the newline on the first line, the separators that \<^verbatim>\<open>strip\<close> removes do
  not include it, and the key of the first line keeps it: the analysis has two keys of
  count 1. When the file ends with a newline, both lines get the key with the newline,
  of count 2.
\<close>

theorem log_key_newline:
  "extract_error_message ''2024-01-01T00:00:00 ERROR [svc] disk full'' = ''disk full''
   \<and> extract_error_message ''2024-01-02T00:00:00 ERROR [svc] disk full'' = ''disk full''
   \<and> map_option a_errors (analyze_file
        (Some ''2024-01-01T00:00:00 ERROR [svc] disk full\<newline>2024-01-02T00:00:00 ERROR [svc] disk full'')
        None)
      = Some [(''disk full\<newline>'', 1), (''disk full'', 1)]
   \<and> map_option a_errors (analyze_file
        (Some ''2024-01-01T00:00:00 ERROR [svc] disk full\<newline>2024-01-02T00:00:00 ERROR [svc] disk full\<newline>'')
        None)
      = Some [(''disk full\<newline>'', 2)]"
  by code_simp

end
